theory Spec2Isabelle
  imports Main "HOL-Library.AList"
begin

section \<open>Values of the assessment service\<close>

text \<open>
  The service in \<^verbatim>\<open>new_api1.py\<close> moves JSON documents around: the request body, the
  completions of the text-generation service, the report that is returned. A Python
  \<^verbatim>\<open>dict\<close> keeps its keys in insertion order, so an object is an association list;
  \<^verbatim>\<open>d[k] = v\<close> is \<open>AList.update\<close> (overwrite in place, else append) and a lookup is
  \<open>map_of\<close>.

  Scope of the model. Text is a list of 8-bit characters: ASCII as it is, anything else as
  its UTF-8 bytes. Numbers are Python's unbounded integers; IEEE doubles are not modelled,
  and a number literal with a fraction or an exponent (or \<^verbatim>\<open>NaN\<close>, \<^verbatim>\<open>Infinity\<close>) makes
  the parser stop with \<open>Float_literal\<close>. Limits of the interpreter (recursion depth, memory,
  the digit limit of \<^verbatim>\<open>int\<close>) and failures of \<^verbatim>\<open>print\<close> itself are not modelled.
\<close>

datatype json =
    JNull
  | JBool bool
  | JInt int
  | JStr string
  | JArr "json list"
  | JObj "(string \<times> json) list"

type_synonym dict = "(string \<times> json) list"

text \<open>The exceptions the code can meet; \<open>Service_failure\<close> carries what the client raised.\<close>

datatype error =
    TypeError
  | AttributeError
  | KeyError
  | JSONDecodeError
  | Float_literal
  | Malformed_response
  | Service_failure string

section \<open>The response extractor (\<^verbatim>\<open>call_ai_model\<close>, lines 79 to 101)\<close>

subsection \<open>Character classes\<close>

text \<open>
  \<^verbatim>\<open>\s\<close> of a \<^verbatim>\<open>str\<close> pattern: below 128 these are the code points 9 to 13, 28 to 31
  and 32.
\<close>

definition is_space :: "char \<Rightarrow> bool" where
  "is_space c = (let n = (of_char c :: nat) in (9 \<le> n \<and> n \<le> 13) \<or> (28 \<le> n \<and> n \<le> 32))"

text \<open>The whitespace of \<^verbatim>\<open>json.decoder\<close>: space, tab, line feed, carriage return.\<close>

definition is_json_ws :: "char \<Rightarrow> bool" where
  "is_json_ws c = (c = CHR '' '' \<or> c = CHR 0x09 \<or> c = CHR 0x0A \<or> c = CHR 0x0D)"

definition is_digit :: "char \<Rightarrow> bool" where
  "is_digit c = (let n = (of_char c :: nat) in 48 \<le> n \<and> n \<le> 57)"

definition digit_val :: "char \<Rightarrow> nat" where
  "digit_val c = of_char c - 48"

subsection \<open>Locating the fenced block\<close>

text \<open>
  \<^verbatim>\<open>re.search(r"```json\s*([\s\S]*?)\s*```", content)\<close>. At a start position the greedy
  \<^verbatim>\<open>\s*\<close> takes all the whitespace after the tag (giving some back never helps: the lazy
  group could then stop at once). The lazy group grows one character at a time until the
  rest of the text reads whitespace followed by three backticks. A start position with no
  closing fence is given up and the search moves one character on.
\<close>

definition closes_fence :: "string \<Rightarrow> bool" where
  "closes_fence s = (case dropWhile is_space s of
      a # b # c # _ \<Rightarrow> a = CHR ''`'' \<and> b = CHR ''`'' \<and> c = CHR ''`''
    | _ \<Rightarrow> False)"

fun lazy_group :: "string \<Rightarrow> string option" where
  "lazy_group [] = (if closes_fence [] then Some [] else None)"
| "lazy_group (x # xs) =
     (if closes_fence (x # xs) then Some []
      else (case lazy_group xs of None \<Rightarrow> None | Some g \<Rightarrow> Some (x # g)))"

definition fence_tag :: string where
  "fence_tag = ''```json''"

definition starts_with :: "string \<Rightarrow> string \<Rightarrow> bool" where
  "starts_with p s = (take (length p) s = p)"

definition match_fence_here :: "string \<Rightarrow> string option" where
  "match_fence_here s =
     (if starts_with fence_tag s
      then lazy_group (dropWhile is_space (drop (length fence_tag) s))
      else None)"

fun search_fence :: "string \<Rightarrow> string option" where
  "search_fence [] = match_fence_here []"
| "search_fence (x # xs) =
     (case match_fence_here (x # xs) of
        Some g \<Rightarrow> Some g
      | None \<Rightarrow> search_fence xs)"

subsection \<open>Repairing trailing commas\<close>

text \<open>
  \<^verbatim>\<open>re.sub(r',\s*}', '}', json_str)\<close> and the same with \<^verbatim>\<open>]\<close>: one scan from the left;
  a comma whose following whitespace ends at the closer is replaced, together with that
  whitespace and the closer, by the closer, and the scan goes on behind it.
\<close>

function sub_comma :: "char \<Rightarrow> string \<Rightarrow> string" where
  "sub_comma c [] = []"
| "sub_comma c (x # xs) =
     (if x = CHR '',''
      then (case dropWhile is_space xs of
              [] \<Rightarrow> x # sub_comma c xs
            | y # ys \<Rightarrow> if y = c then c # sub_comma c ys else x # sub_comma c xs)
      else x # sub_comma c xs)"
  by pat_completeness auto
termination
proof (relation "measure (\<lambda>(c, s). length s)")
  fix c :: char and x :: char and xs :: string and y :: char and ys :: string
  assume "dropWhile is_space xs = y # ys"
  then have "length (y # ys) \<le> length xs"
    by (metis length_dropWhile_le)
  then show "((c, ys), (c, x # xs)) \<in> measure (\<lambda>(c, s). length s)"
    by simp
qed simp_all

definition repair :: "string \<Rightarrow> string" where
  "repair s = sub_comma CHR '']'' (sub_comma CHR ''}'' s)"

subsection \<open>Reading the candidate text (\<^verbatim>\<open>json.loads\<close>)\<close>

text \<open>
  The decoder of the standard library skips whitespace in front of every token, so it is
  modelled as a tokenizer followed by a parser of the token list. String literals are
  read as the strict decoder reads them: a control character inside a literal is an
  error, the escapes are the nine of JSON, and \<^verbatim>\<open>\uXXXX\<close> (a surrogate pair joined)
  yields the UTF-8 bytes of the code point.
\<close>

datatype token =
    LBrace | RBrace | LBrack | RBrack | Colon | Comma
  | TStr string | TInt int | TTrue | TFalse | TNull

definition hex_val :: "char \<Rightarrow> nat option" where
  "hex_val c = (let n = (of_char c :: nat) in
     if 48 \<le> n \<and> n \<le> 57 then Some (n - 48)
     else if 97 \<le> n \<and> n \<le> 102 then Some (n - 87)
     else if 65 \<le> n \<and> n \<le> 70 then Some (n - 55)
     else None)"

definition hex4 :: "string \<Rightarrow> nat option" where
  "hex4 s = (case s of
      a # b # c # d # _ \<Rightarrow>
        (case (hex_val a, hex_val b, hex_val c, hex_val d) of
           (Some w, Some x, Some y, Some z) \<Rightarrow> Some (((w * 16 + x) * 16 + y) * 16 + z)
         | _ \<Rightarrow> None)
    | _ \<Rightarrow> None)"

definition utf8 :: "nat \<Rightarrow> string" where
  "utf8 n =
     (if n < 0x80 then [char_of n]
      else if n < 0x800 then [char_of (0xC0 + n div 64), char_of (0x80 + n mod 64)]
      else if n < 0x10000 then
        [char_of (0xE0 + n div 4096), char_of (0x80 + (n div 64) mod 64), char_of (0x80 + n mod 64)]
      else
        [char_of (0xF0 + n div 262144), char_of (0x80 + (n div 4096) mod 64),
         char_of (0x80 + (n div 64) mod 64), char_of (0x80 + n mod 64)])"

definition is_high_surrogate :: "nat \<Rightarrow> bool" where
  "is_high_surrogate n = (0xD800 \<le> n \<and> n \<le> 0xDBFF)"

definition is_low_surrogate :: "nat \<Rightarrow> bool" where
  "is_low_surrogate n = (0xDC00 \<le> n \<and> n \<le> 0xDFFF)"

definition join_surrogates :: "nat \<Rightarrow> nat \<Rightarrow> nat" where
  "join_surrogates h l = 0x10000 + (h - 0xD800) * 1024 + (l - 0xDC00)"

definition unescape :: "char \<Rightarrow> char option" where
  "unescape e =
     (if e = CHR 0x22 then Some (CHR 0x22)
      else if e = CHR 0x5C then Some (CHR 0x5C)
      else if e = CHR ''/'' then Some (CHR ''/'')
      else if e = CHR ''b'' then Some (CHR 0x08)
      else if e = CHR ''f'' then Some (CHR 0x0C)
      else if e = CHR ''n'' then Some (CHR 0x0A)
      else if e = CHR ''r'' then Some (CHR 0x0D)
      else if e = CHR ''t'' then Some (CHR 0x09)
      else None)"

definition emit :: "string \<Rightarrow> error + string \<times> string \<Rightarrow> error + string \<times> string" where
  "emit pre r = (case r of Inl e \<Rightarrow> Inl e | Inr (s, rest) \<Rightarrow> Inr (pre @ s, rest))"

text \<open>\<open>scan_string\<close> starts behind the opening quote and returns the text and what follows
  the closing quote.\<close>

function scan_string :: "string \<Rightarrow> error + string \<times> string" where
  "scan_string [] = Inl JSONDecodeError"
| "scan_string (c # cs) =
     (if c = CHR 0x22 then Inr ([], cs)
      else if c = CHR 0x5C then
        (case cs of
           [] \<Rightarrow> Inl JSONDecodeError
         | e # cs' \<Rightarrow>
             if e = CHR ''u'' then
               (case hex4 cs' of
                  None \<Rightarrow> Inl JSONDecodeError
                | Some n \<Rightarrow>
                    if is_high_surrogate n \<and> starts_with [CHR 0x5C, CHR ''u''] (drop 4 cs') then
                      (case hex4 (drop 6 cs') of
                         None \<Rightarrow> Inl JSONDecodeError
                       | Some m \<Rightarrow>
                           if is_low_surrogate m
                           then emit (utf8 (join_surrogates n m)) (scan_string (drop 10 cs'))
                           else emit (utf8 n) (scan_string (drop 4 cs')))
                    else emit (utf8 n) (scan_string (drop 4 cs')))
             else
               (case unescape e of
                  None \<Rightarrow> Inl JSONDecodeError
                | Some ch \<Rightarrow> emit [ch] (scan_string cs')))
      else if (of_char c :: nat) < 32 then Inl JSONDecodeError
      else emit [c] (scan_string cs))"
  by pat_completeness auto
termination
  by (relation "measure length") auto

text \<open>
  A number is \<^verbatim>\<open>-?(0|[1-9][0-9]*)\<close>; a fraction or an exponent behind it makes it a
  float. \<open>scan_number\<close> is called on a text that starts with a minus sign or a digit.
\<close>

definition is_frac :: "string \<Rightarrow> bool" where
  "is_frac s = (case s of p # d # _ \<Rightarrow> p = CHR ''.'' \<and> is_digit d | _ \<Rightarrow> False)"

definition is_exp :: "string \<Rightarrow> bool" where
  "is_exp s = (case s of
      e # t \<Rightarrow> (e = CHR ''e'' \<or> e = CHR ''E'') \<and>
        (case t of
           d # u \<Rightarrow> is_digit d \<or>
             ((d = CHR ''+'' \<or> d = CHR ''-'') \<and> (case u of d' # _ \<Rightarrow> is_digit d' | [] \<Rightarrow> False))
         | [] \<Rightarrow> False)
    | [] \<Rightarrow> False)"

definition nat_of_digits :: "string \<Rightarrow> nat" where
  "nat_of_digits ds = foldl (\<lambda>a c. 10 * a + digit_val c) 0 ds"

definition scan_digits :: "bool \<Rightarrow> string \<Rightarrow> error + int \<times> string" where
  "scan_digits neg r =
     (case r of
        [] \<Rightarrow> Inl JSONDecodeError
      | d # ds \<Rightarrow>
          if \<not> is_digit d then
            (if neg \<and> starts_with ''Infinity'' r then Inl Float_literal else Inl JSONDecodeError)
          else
            (let digits = (if d = CHR ''0'' then [d] else takeWhile is_digit r);
                 rest = drop (length digits) r
             in if is_frac rest \<or> is_exp rest then Inl Float_literal
                else Inr ((if neg then - int (nat_of_digits digits) else int (nat_of_digits digits)), rest)))"

definition scan_number :: "string \<Rightarrow> error + int \<times> string" where
  "scan_number s =
     (case s of
        [] \<Rightarrow> Inl JSONDecodeError
      | c # cs \<Rightarrow> if c = CHR ''-'' then scan_digits True cs else scan_digits False s)"

definition push :: "token \<Rightarrow> error + token list \<Rightarrow> error + token list" where
  "push t r = (case r of Inl e \<Rightarrow> Inl e | Inr ts \<Rightarrow> Inr (t # ts))"

lemma emit_Inr: "emit pre r = Inr (t, rest) \<longleftrightarrow> (\<exists>s. r = Inr (s, rest) \<and> t = pre @ s)"
  by (auto simp: emit_def split: sum.splits)

lemma scan_string_shorter: "scan_string s = Inr (t, rest) \<Longrightarrow> length rest < length s"
proof (induction s arbitrary: t rest rule: scan_string.induct)
  case 1
  then show ?case by simp
next
  case (2 c cs)
  show ?case
  proof (cases "c = CHR 0x22")
    case True
    with "2.prems" show ?thesis by simp
  next
    case notq: False
    show ?thesis
    proof (cases "c = CHR 0x5C")
      case False
      with notq "2.prems" obtain s' where "scan_string cs = Inr (s', rest)"
        by (auto simp: emit_Inr split: if_splits)
      with "2.IH"(5)[OF notq False] "2.prems" notq False show ?thesis
        by (fastforce split: if_splits)
    next
      case bs: True
      show ?thesis
      proof (cases cs)
        case Nil
        with "2.prems" notq bs show ?thesis by simp
      next
        case (Cons e cs')
        show ?thesis
        proof (cases "e = CHR ''u''")
          case False
          with "2.prems" notq bs Cons obtain ch s' where
            "unescape e = Some ch" "scan_string cs' = Inr (s', rest)"
            by (auto simp: emit_Inr split: option.splits)
          with "2.IH"(4)[OF notq bs Cons False] Cons show ?thesis
            by fastforce
        next
          case u: True
          from "2.prems" notq bs Cons u obtain n where n: "hex4 cs' = Some n"
            by (auto split: option.splits)
          show ?thesis
          proof (cases "is_high_surrogate n \<and> starts_with [CHR 0x5C, CHR ''u''] (drop 4 cs')")
            case False
            with "2.prems" notq bs Cons u n obtain s' where
              "scan_string (drop 4 cs') = Inr (s', rest)"
              by (auto simp: emit_Inr)
            with "2.IH"(3)[OF notq bs Cons u n False] Cons show ?thesis
              by fastforce
          next
            case hs: True
            from "2.prems" notq bs Cons u n hs obtain m where m: "hex4 (drop 6 cs') = Some m"
              by (auto split: option.splits)
            show ?thesis
            proof (cases "is_low_surrogate m")
              case True
              with "2.prems" notq bs Cons u n hs m obtain s' where
                "scan_string (drop 10 cs') = Inr (s', rest)"
                by (auto simp: emit_Inr)
              with "2.IH"(1)[OF notq bs Cons u n hs m True] Cons show ?thesis
                by fastforce
            next
              case False
              with "2.prems" notq bs Cons u n hs m obtain s' where
                "scan_string (drop 4 cs') = Inr (s', rest)"
                by (auto simp: emit_Inr)
              with "2.IH"(2)[OF notq bs Cons u n hs m False] Cons show ?thesis
                by fastforce
            qed
          qed
        qed
      qed
    qed
  qed
qed

lemma scan_number_shorter: "scan_number s = Inr (i, rest) \<Longrightarrow> length rest < length s"
  by (auto simp: scan_number_def scan_digits_def Let_def split: list.splits if_splits)

function tokenize :: "string \<Rightarrow> error + token list" where
  "tokenize [] = Inr []"
| "tokenize (c # cs) =
     (if is_json_ws c then tokenize cs
      else if c = CHR ''{'' then push LBrace (tokenize cs)
      else if c = CHR ''}'' then push RBrace (tokenize cs)
      else if c = CHR ''['' then push LBrack (tokenize cs)
      else if c = CHR '']'' then push RBrack (tokenize cs)
      else if c = CHR '':'' then push Colon (tokenize cs)
      else if c = CHR '','' then push Comma (tokenize cs)
      else if c = CHR 0x22 then
        (case scan_string cs of
           Inl e \<Rightarrow> Inl e
         | Inr (s, rest) \<Rightarrow> push (TStr s) (tokenize rest))
      else if c = CHR ''-'' \<or> is_digit c then
        (case scan_number (c # cs) of
           Inl e \<Rightarrow> Inl e
         | Inr (i, rest) \<Rightarrow> push (TInt i) (tokenize rest))
      else if starts_with ''null'' (c # cs) then push TNull (tokenize (drop 3 cs))
      else if starts_with ''true'' (c # cs) then push TTrue (tokenize (drop 3 cs))
      else if starts_with ''false'' (c # cs) then push TFalse (tokenize (drop 4 cs))
      else if starts_with ''NaN'' (c # cs) \<or> starts_with ''Infinity'' (c # cs) then Inl Float_literal
      else Inl JSONDecodeError)"
  by pat_completeness auto
termination
proof (relation "measure length", goal_cases)
  case (9 c cs x2 s rest)
  then show ?case using scan_string_shorter[of cs s rest] by simp
next
  case (10 c cs x2 i rest)
  then show ?case using scan_number_shorter[of "c # cs" i rest] by simp
qed auto

text \<open>
  The parser keeps the containers under construction on a stack and reads one token per
  step. A repeated key keeps its first position and takes the last value, as
  \<^verbatim>\<open>dict(pairs)\<close> does.
\<close>

datatype frame = Arr "json list" | Obj dict | Obj_key dict string

datatype pstate =
    Want_value | Want_value_or_end | Want_key_or_end | Want_key | Want_colon
  | After_value | Finished json

definition scalar :: "token \<Rightarrow> json option" where
  "scalar t = (case t of
      TStr s \<Rightarrow> Some (JStr s)
    | TInt i \<Rightarrow> Some (JInt i)
    | TTrue \<Rightarrow> Some (JBool True)
    | TFalse \<Rightarrow> Some (JBool False)
    | TNull \<Rightarrow> Some JNull
    | _ \<Rightarrow> None)"

definition complete :: "json \<Rightarrow> frame list \<Rightarrow> (pstate \<times> frame list) option" where
  "complete v fs = (case fs of
      [] \<Rightarrow> Some (Finished v, [])
    | Arr xs # fs' \<Rightarrow> Some (After_value, Arr (xs @ [v]) # fs')
    | Obj_key d k # fs' \<Rightarrow> Some (After_value, Obj (AList.update k v d) # fs')
    | Obj d # fs' \<Rightarrow> None)"

definition begin_value :: "frame list \<Rightarrow> token \<Rightarrow> (pstate \<times> frame list) option" where
  "begin_value fs t = (case t of
      LBrack \<Rightarrow> Some (Want_value_or_end, Arr [] # fs)
    | LBrace \<Rightarrow> Some (Want_key_or_end, Obj [] # fs)
    | _ \<Rightarrow> (case scalar t of Some v \<Rightarrow> complete v fs | None \<Rightarrow> None))"

definition close_array :: "frame list \<Rightarrow> (pstate \<times> frame list) option" where
  "close_array fs = (case fs of Arr xs # fs' \<Rightarrow> complete (JArr xs) fs' | _ \<Rightarrow> None)"

definition close_object :: "frame list \<Rightarrow> (pstate \<times> frame list) option" where
  "close_object fs = (case fs of Obj d # fs' \<Rightarrow> complete (JObj d) fs' | _ \<Rightarrow> None)"

definition read_key :: "frame list \<Rightarrow> token \<Rightarrow> (pstate \<times> frame list) option" where
  "read_key fs t = (case t of
      TStr k \<Rightarrow> (case fs of Obj d # fs' \<Rightarrow> Some (Want_colon, Obj_key d k # fs') | _ \<Rightarrow> None)
    | _ \<Rightarrow> None)"

definition step :: "pstate \<Rightarrow> frame list \<Rightarrow> token \<Rightarrow> (pstate \<times> frame list) option" where
  "step st fs t = (case st of
      Want_value \<Rightarrow> begin_value fs t
    | Want_value_or_end \<Rightarrow> if t = RBrack then close_array fs else begin_value fs t
    | Want_key_or_end \<Rightarrow> if t = RBrace then close_object fs else read_key fs t
    | Want_key \<Rightarrow> read_key fs t
    | Want_colon \<Rightarrow> if t = Colon then Some (Want_value, fs) else None
    | After_value \<Rightarrow>
        (case fs of
           Arr xs # _ \<Rightarrow>
             if t = Comma then Some (Want_value, fs)
             else if t = RBrack then close_array fs else None
         | Obj d # _ \<Rightarrow>
             if t = Comma then Some (Want_key, fs)
             else if t = RBrace then close_object fs else None
         | _ \<Rightarrow> None)
    | Finished v \<Rightarrow> None)"

fun run :: "pstate \<Rightarrow> frame list \<Rightarrow> token list \<Rightarrow> error + json" where
  "run st fs [] = (case st of Finished v \<Rightarrow> Inr v | _ \<Rightarrow> Inl JSONDecodeError)"
| "run st fs (t # ts) =
     (case step st fs t of
        None \<Rightarrow> Inl JSONDecodeError
      | Some (st', fs') \<Rightarrow> run st' fs' ts)"

definition json_loads :: "string \<Rightarrow> error + json" where
  "json_loads s = (case tokenize s of Inl e \<Rightarrow> Inl e | Inr ts \<Rightarrow> run Want_value [] ts)"

subsection \<open>Python's operators on parsed values\<close>

definition and_then :: "error + 'a \<Rightarrow> ('a \<Rightarrow> error + 'b) \<Rightarrow> error + 'b" where
  "and_then m f = (case m of Inl e \<Rightarrow> Inl e | Inr x \<Rightarrow> f x)"

fun is_substring :: "string \<Rightarrow> string \<Rightarrow> bool" where
  "is_substring p [] = (p = [])"
| "is_substring p (x # xs) = (starts_with p (x # xs) \<or> is_substring p xs)"

text \<open>\<^verbatim>\<open>key in x\<close> for a string \<open>key\<close>: a key of a dict, an element of a list, a substring
  of a string; anything else is not iterable.\<close>

definition py_contains :: "string \<Rightarrow> json \<Rightarrow> error + bool" where
  "py_contains key x = (case x of
      JObj d \<Rightarrow> Inr (map_of d key \<noteq> None)
    | JArr xs \<Rightarrow> Inr (JStr key \<in> set xs)
    | JStr s \<Rightarrow> Inr (is_substring key s)
    | _ \<Rightarrow> Inl TypeError)"

text \<open>\<^verbatim>\<open>x[key]\<close> for a string \<open>key\<close>.\<close>

definition py_getitem :: "json \<Rightarrow> string \<Rightarrow> error + json" where
  "py_getitem x key = (case x of
      JObj d \<Rightarrow> (case map_of d key of None \<Rightarrow> Inl KeyError | Some v \<Rightarrow> Inr v)
    | _ \<Rightarrow> Inl TypeError)"

text \<open>\<^verbatim>\<open>x[key] = v\<close> for a string \<open>key\<close>.\<close>

definition py_setitem :: "json \<Rightarrow> string \<Rightarrow> json \<Rightarrow> error + json" where
  "py_setitem x key v = (case x of
      JObj d \<Rightarrow> Inr (JObj (AList.update key v d))
    | _ \<Rightarrow> Inl TypeError)"

text \<open>\<^verbatim>\<open>x.items()\<close>.\<close>

definition py_items :: "json \<Rightarrow> error + dict" where
  "py_items x = (case x of JObj d \<Rightarrow> Inr d | _ \<Rightarrow> Inl AttributeError)"

subsection \<open>Extraction\<close>

text \<open>Lines 93 to 98: the flat \<^verbatim>\<open>dimension_scores\<close> view of a \<^verbatim>\<open>dimensions\<close> mapping.\<close>

fun collect_scores :: "dict \<Rightarrow> dict \<Rightarrow> error + dict" where
  "collect_scores acc [] = Inr acc"
| "collect_scores acc ((dim_code, dim_detail) # rest) =
     (case py_contains ''score'' dim_detail of
        Inl e \<Rightarrow> Inl e
      | Inr False \<Rightarrow> collect_scores acc rest
      | Inr True \<Rightarrow>
          (case py_getitem dim_detail ''score'' of
             Inl e \<Rightarrow> Inl e
           | Inr v \<Rightarrow> collect_scores (AList.update dim_code v acc) rest))"

definition add_dimension_scores :: "json \<Rightarrow> error + json" where
  "add_dimension_scores data =
     and_then (py_contains ''dimensions'' data) (\<lambda>has.
       if has then
         and_then (py_getitem data ''dimensions'') (\<lambda>dims.
         and_then (py_items dims) (\<lambda>items.
         and_then (collect_scores [] items) (\<lambda>dimension_scores.
           py_setitem data ''dimension_scores'' (JObj dimension_scores))))
       else Inr data)"

text \<open>Lines 79 to 101, from the completion text to the value \<^verbatim>\<open>call_ai_model\<close> returns.\<close>

definition candidate :: "string \<Rightarrow> string" where
  "candidate content = (case search_fence content of Some g \<Rightarrow> g | None \<Rightarrow> content)"

definition extract_json :: "string \<Rightarrow> error + json" where
  "extract_json content = and_then (json_loads (repair (candidate content))) add_dimension_scores"

section \<open>Python's operations on the values of a request\<close>

text \<open>\<^verbatim>\<open>d.get(k, default)\<close>.\<close>

definition dict_get :: "dict \<Rightarrow> string \<Rightarrow> json \<Rightarrow> json" where
  "dict_get d k dflt = (case map_of d k of Some v \<Rightarrow> v | None \<Rightarrow> dflt)"

text \<open>Truth value of a value in a condition.\<close>

definition truthy :: "json \<Rightarrow> bool" where
  "truthy x = (case x of
      JNull \<Rightarrow> False
    | JBool b \<Rightarrow> b
    | JInt i \<Rightarrow> i \<noteq> 0
    | JStr s \<Rightarrow> s \<noteq> []
    | JArr xs \<Rightarrow> xs \<noteq> []
    | JObj d \<Rightarrow> d \<noteq> [])"

text \<open>A \<^verbatim>\<open>bool\<close> is an \<^verbatim>\<open>int\<close> in Python: \<^verbatim>\<open>True == 1\<close> and \<^verbatim>\<open>0 + True == 1\<close>.\<close>

definition num_of :: "json \<Rightarrow> int option" where
  "num_of x = (case x of
      JInt i \<Rightarrow> Some i
    | JBool b \<Rightarrow> Some (if b then 1 else 0)
    | _ \<Rightarrow> None)"

text \<open>
  \<^verbatim>\<open>x == y\<close>. Lists are compared element by element; two dicts are equal when they have
  the same number of keys and every key of the first has an equal value in the second.
\<close>

fun py_eq :: "json \<Rightarrow> json \<Rightarrow> bool"
  and py_eq_list :: "json list \<Rightarrow> json list \<Rightarrow> bool"
  and py_eq_items :: "dict \<Rightarrow> dict \<Rightarrow> bool" where
  "py_eq JNull y = (y = JNull)"
| "py_eq (JBool a) y = (num_of y = Some (if a then 1 else 0))"
| "py_eq (JInt a) y = (num_of y = Some a)"
| "py_eq (JStr a) y = (y = JStr a)"
| "py_eq (JArr xs) y = (case y of JArr ys \<Rightarrow> py_eq_list xs ys | _ \<Rightarrow> False)"
| "py_eq (JObj d) y = (case y of JObj e \<Rightarrow> length d = length e \<and> py_eq_items d e | _ \<Rightarrow> False)"
| "py_eq_list [] ys = (ys = [])"
| "py_eq_list (x # xs) ys = (case ys of [] \<Rightarrow> False | y # ys' \<Rightarrow> py_eq x y \<and> py_eq_list xs ys')"
| "py_eq_items [] e = True"
| "py_eq_items ((k, v) # d) e =
     ((case map_of e k of None \<Rightarrow> False | Some w \<Rightarrow> py_eq v w) \<and> py_eq_items d e)"

text \<open>\<^verbatim>\<open>x + y\<close>: numbers are added, strings and lists concatenated; anything else is a
  \<^verbatim>\<open>TypeError\<close>.\<close>

definition py_add :: "json \<Rightarrow> json \<Rightarrow> error + json" where
  "py_add x y = (case (num_of x, num_of y) of
      (Some i, Some j) \<Rightarrow> Inr (JInt (i + j))
    | _ \<Rightarrow> (case (x, y) of
        (JStr s, JStr t) \<Rightarrow> Inr (JStr (s @ t))
      | (JArr xs, JArr ys) \<Rightarrow> Inr (JArr (xs @ ys))
      | _ \<Rightarrow> Inl TypeError))"

text \<open>Lists and dicts cannot be keys of a dict: \<^verbatim>\<open>x in d\<close> raises for them.\<close>

definition hashable :: "json \<Rightarrow> bool" where
  "hashable x = (case x of JArr _ \<Rightarrow> False | JObj _ \<Rightarrow> False | _ \<Rightarrow> True)"

text \<open>Iterating over a value: the elements of a list, the characters of a string, the keys
  of a dict.\<close>

definition py_iter :: "json \<Rightarrow> error + json list" where
  "py_iter x = (case x of
      JArr xs \<Rightarrow> Inr xs
    | JStr s \<Rightarrow> Inr (map (\<lambda>c. JStr [c]) s)
    | JObj d \<Rightarrow> Inr (map (\<lambda>kv. JStr (fst kv)) d)
    | _ \<Rightarrow> Inl TypeError)"

subsection \<open>\<^verbatim>\<open>str\<close>\<close>

definition digit_char :: "nat \<Rightarrow> char" where
  "digit_char d = char_of (48 + d)"

function str_nat :: "nat \<Rightarrow> string" where
  "str_nat n = (if n < 10 then [digit_char n] else str_nat (n div 10) @ [digit_char (n mod 10)])"
  by pat_completeness auto
termination
  by (relation "measure id") auto

declare str_nat.simps [simp del]

definition str_int :: "int \<Rightarrow> string" where
  "str_int i = (if i < 0 then CHR ''-'' # str_nat (nat (- i)) else str_nat (nat i))"

definition hex_char :: "nat \<Rightarrow> char" where
  "hex_char d = (if d < 10 then char_of (48 + d) else char_of (87 + d))"

text \<open>
  \<^verbatim>\<open>repr\<close> of a string: single quotes unless the text has a single quote and no double
  quote; the quote and the backslash are escaped, and so are the control characters.
  Bytes from 128 on are copied.
\<close>

definition repr_char :: "char \<Rightarrow> char \<Rightarrow> string" where
  "repr_char q c =
     (if c = q \<or> c = CHR 0x5C then [CHR 0x5C, c]
      else if c = CHR 0x09 then [CHR 0x5C, CHR ''t'']
      else if c = CHR 0x0A then [CHR 0x5C, CHR ''n'']
      else if c = CHR 0x0D then [CHR 0x5C, CHR ''r'']
      else if (of_char c :: nat) < 32 \<or> (of_char c :: nat) = 127 then
        [CHR 0x5C, CHR ''x'', hex_char ((of_char c :: nat) div 16), hex_char ((of_char c :: nat) mod 16)]
      else [c])"

definition repr_str :: "string \<Rightarrow> string" where
  "repr_str s =
     (let q = (if CHR 0x27 \<in> set s \<and> CHR 0x22 \<notin> set s then CHR 0x22 else CHR 0x27)
      in q # concat (map (repr_char q) s) @ [q])"

fun join :: "string \<Rightarrow> string list \<Rightarrow> string" where
  "join sep [] = []"
| "join sep [x] = x"
| "join sep (x # y # ys) = x @ sep @ join sep (y # ys)"

fun py_repr :: "json \<Rightarrow> string" where
  "py_repr JNull = ''None''"
| "py_repr (JBool b) = (if b then ''True'' else ''False'')"
| "py_repr (JInt i) = str_int i"
| "py_repr (JStr s) = repr_str s"
| "py_repr (JArr xs) = ''['' @ join '', '' (map py_repr xs) @ '']''"
| "py_repr (JObj d) =
     ''{'' @ join '', '' (map (\<lambda>kv. repr_str (fst kv) @ '': '' @ py_repr (snd kv)) d) @ ''}''"

definition py_str :: "json \<Rightarrow> string" where
  "py_str x = (case x of JStr s \<Rightarrow> s | _ \<Rightarrow> py_repr x)"

section \<open>The request handler (\<^verbatim>\<open>analyze_data\<close>)\<close>

subsection \<open>Data\<close>

text \<open>
  The handler builds dicts with a fixed set of keys for options, formatted questions,
  question/answer pairs and grouped responses; they are records here. A key that the
  code adds later (\<^verbatim>\<open>options\<close>, \<^verbatim>\<open>user_choice\<close>) is an optional field.
\<close>

record request =
  user_info :: dict
  questions :: "dict list"
  answers :: dict

record choice =
  choice_key :: json
  choice_content :: json
  choice_score :: json

record formatted_question =
  fq_id :: json
  fq_stem :: json
  fq_type :: json
  fq_options :: "choice list"
  fq_dimension :: json
  fq_standard :: json

record qa_pair =
  qa_question :: json
  qa_dimension :: json
  qa_answer :: json
  qa_type :: json
  qa_standard :: json
  qa_options :: "choice list option"
  qa_user_choice :: "choice option"

record response_item =
  resp_question :: json
  resp_answer :: json
  resp_standard :: json

text \<open>
  A prompt is a fixed text around the data it embeds, so the text-generation service is a
  function of that data. Within one request no two prompts are equal.
\<close>

datatype prompt =
    Subjective_prompt string "response_item list"
  | Report_prompt dict "qa_pair list" dict dict dict dict

text \<open>What the client returns: it raises, it returns no choice, or it returns a completion
  whose content is a text or \<^verbatim>\<open>None\<close>.\<close>

datatype reply = Raises error | No_choices | Completion "string option"

text \<open>
  The environment of one request: the service, the text \<^verbatim>\<open>str(e)\<close> of an exception and
  the reading of the clock when the result is stored.
\<close>

record 't env =
  complete_text :: "prompt \<Rightarrow> reply"
  describe :: "error \<Rightarrow> string"
  now :: 't

record envelope =
  resp_code :: int
  resp_message :: string
  resp_data :: "json option"

record 't log_entry =
  entry_username :: json
  entry_result :: json
  entry_timestamp :: 't

definition DIMS :: "string list" where
  "DIMS = [''R'', ''E'', ''A'', ''D'', ''Y'']"

definition zero_scores :: dict where
  "zero_scores = map (\<lambda>d. (d, JInt 0)) DIMS"

text \<open>The UTF-8 bytes of the two message texts of the handler.\<close>

definition failure_prefix :: string where
  "failure_prefix =
     [CHR 0xE5, CHR 0x88, CHR 0x86, CHR 0xE6, CHR 0x9E, CHR 0x90,
      CHR 0xE5, CHR 0xA4, CHR 0xB1, CHR 0xE8, CHR 0xB4, CHR 0xA5, CHR '':'', CHR '' '']"

definition success_message :: string where
  "success_message =
     [CHR 0xE5, CHR 0x88, CHR 0x86, CHR 0xE6, CHR 0x9E, CHR 0x90,
      CHR 0xE6, CHR 0x88, CHR 0x90, CHR 0xE5, CHR 0x8A, CHR 0x9F]"

subsection \<open>\<^verbatim>\<open>call_ai_model\<close>\<close>

definition call_ai_model :: "(prompt \<Rightarrow> reply) \<Rightarrow> prompt \<Rightarrow> error + json" where
  "call_ai_model service p = (case service p of
      Raises e \<Rightarrow> Inl e
    | No_choices \<Rightarrow> Inl Malformed_response
    | Completion None \<Rightarrow> Inl TypeError
    | Completion (Some content) \<Rightarrow> extract_json content)"

subsection \<open>Formatting the questions (lines 121 to 143)\<close>

definition format_option :: "nat \<Rightarrow> json \<Rightarrow> error + choice" where
  "format_option j opt = (case opt of
      JObj d \<Rightarrow> Inr \<lparr>choice_key = dict_get d ''key'' (JStr (str_nat (j + 1))),
                     choice_content = dict_get d ''content'' (JStr ''''),
                     choice_score = dict_get d ''score'' (JInt 0)\<rparr>
    | _ \<Rightarrow> Inl AttributeError)"

fun format_options :: "nat \<Rightarrow> json list \<Rightarrow> error + choice list" where
  "format_options j [] = Inr []"
| "format_options j (opt # rest) =
     (case format_option j opt of
        Inl e \<Rightarrow> Inl e
      | Inr c \<Rightarrow> (case format_options (Suc j) rest of Inl e \<Rightarrow> Inl e | Inr cs \<Rightarrow> Inr (c # cs)))"

definition format_question :: "nat \<Rightarrow> dict \<Rightarrow> error + formatted_question" where
  "format_question i q =
     (let question_id = dict_get q ''id'' (JStr (str_nat (i + 1)));
          question_type = dict_get q ''type'' (JStr ''single_choice'')
      in and_then
           (if question_type = JStr ''single_choice'' \<and> map_of q ''options'' \<noteq> None
            then and_then (py_iter (dict_get q ''options'' (JArr []))) (format_options 0)
            else Inr [])
           (\<lambda>options. Inr \<lparr>fq_id = question_id,
                            fq_stem = dict_get q ''stem'' (JStr ''''),
                            fq_type = question_type,
                            fq_options = options,
                            fq_dimension = dict_get q ''dimension'' (JStr ''''),
                            fq_standard = dict_get q ''standard'' (JStr '''')\<rparr>))"

fun format_questions :: "nat \<Rightarrow> dict list \<Rightarrow> error + formatted_question list" where
  "format_questions i [] = Inr []"
| "format_questions i (q # qs) =
     (case format_question i q of
        Inl e \<Rightarrow> Inl e
      | Inr f \<Rightarrow> (case format_questions (Suc i) qs of Inl e \<Rightarrow> Inl e | Inr fs \<Rightarrow> Inr (f # fs)))"

subsection \<open>Pairing questions with answers (lines 146 to 170)\<close>

definition is_subjective :: "json \<Rightarrow> bool" where
  "is_subjective t =
     (t = JStr ''subject_question'' \<or> t = JStr ''career_transition'' \<or> t = JStr ''career_choice'')"

definition make_pair :: "formatted_question \<Rightarrow> json \<Rightarrow> qa_pair" where
  "make_pair q a =
     \<lparr>qa_question = fq_stem q, qa_dimension = fq_dimension q, qa_answer = a,
      qa_type = fq_type q, qa_standard = fq_standard q,
      qa_options = None, qa_user_choice = None\<rparr>"

text \<open>The result is the pair (objective pairs, subjective pairs), each in the order of the
  questions.\<close>

fun pair_up :: "dict \<Rightarrow> formatted_question list \<Rightarrow> qa_pair list \<times> qa_pair list" where
  "pair_up ans [] = ([], [])"
| "pair_up ans (q # qs) =
     (let (objective, subjective) = pair_up ans qs in
      case map_of ans (py_str (fq_id q)) of
        None \<Rightarrow> (objective, subjective)
      | Some a \<Rightarrow>
          if is_subjective (fq_type q) then (objective, make_pair q a # subjective)
          else ((make_pair q a)\<lparr>qa_options := Some (fq_options q)\<rparr> # objective, subjective))"

subsection \<open>The objective scorer (lines 177 to 195)\<close>

definition options_of :: "qa_pair \<Rightarrow> choice list" where
  "options_of qa = (case qa_options qa of None \<Rightarrow> [] | Some os \<Rightarrow> os)"

text \<open>The first option whose key equals the answer; the recorded key is the answer.\<close>

definition resolve_choice :: "qa_pair \<Rightarrow> qa_pair" where
  "resolve_choice qa =
     (case find (\<lambda>opt. py_eq (choice_key opt) (qa_answer qa)) (options_of qa) of
        None \<Rightarrow> qa
      | Some opt \<Rightarrow>
          qa\<lparr>qa_user_choice :=
               Some \<lparr>choice_key = qa_answer qa,
                     choice_content = choice_content opt,
                     choice_score = choice_score opt\<rparr>\<rparr>)"

text \<open>\<^verbatim>\<open>x in scores\<close> for a dict keyed by the five dimensions: the key when it is one.\<close>

definition dimension_key :: "json \<Rightarrow> error + string option" where
  "dimension_key x =
     (if \<not> hashable x then Inl TypeError
      else (case x of
              JStr s \<Rightarrow> Inr (if s \<in> set DIMS then Some s else None)
            | _ \<Rightarrow> Inr None))"

fun score_objective :: "dict \<Rightarrow> qa_pair list \<Rightarrow> error + dict" where
  "score_objective scores [] = Inr scores"
| "score_objective scores (qa # qas) =
     (case dimension_key (qa_dimension qa) of
        Inl e \<Rightarrow> Inl e
      | Inr None \<Rightarrow> score_objective scores qas
      | Inr (Some dim) \<Rightarrow>
          (case qa_user_choice qa of
             None \<Rightarrow> score_objective scores qas
           | Some uc \<Rightarrow>
               (case map_of scores dim of
                  None \<Rightarrow> Inl KeyError
                | Some cur \<Rightarrow>
                    (case py_add cur (choice_score uc) of
                       Inl e \<Rightarrow> Inl e
                     | Inr v \<Rightarrow> score_objective (AList.update dim v scores) qas))))"

subsection \<open>Grouping the subjective answers (lines 209 to 237)\<close>

text \<open>The dimensions one pair is filed under: every recognised element of a list (an
  element twice when it is listed twice), or the one recognised string.\<close>

fun listed_dimensions :: "json list \<Rightarrow> error + string list" where
  "listed_dimensions [] = Inr []"
| "listed_dimensions (d # ds) =
     (if truthy d then
        (case dimension_key d of
           Inl e \<Rightarrow> Inl e
         | Inr None \<Rightarrow> listed_dimensions ds
         | Inr (Some s) \<Rightarrow>
             (case listed_dimensions ds of Inl e \<Rightarrow> Inl e | Inr ss \<Rightarrow> Inr (s # ss)))
      else listed_dimensions ds)"

definition dims_to_process :: "json \<Rightarrow> error + string list" where
  "dims_to_process dim_value = (case dim_value of
      JArr ds \<Rightarrow> listed_dimensions ds
    | JStr s \<Rightarrow> Inr (if s \<noteq> [] \<and> s \<in> set DIMS then [s] else [])
    | _ \<Rightarrow> Inr [])"

type_synonym responses = "(string \<times> response_item list) list"

definition no_responses :: responses where
  "no_responses = map (\<lambda>d. (d, [])) DIMS"

definition item_of :: "qa_pair \<Rightarrow> response_item" where
  "item_of qa =
     \<lparr>resp_question = qa_question qa, resp_answer = qa_answer qa, resp_standard = qa_standard qa\<rparr>"

definition file_under :: "response_item \<Rightarrow> responses \<Rightarrow> string \<Rightarrow> responses" where
  "file_under item dr dim = AList.map_entry dim (\<lambda>items. items @ [item]) dr"

fun group_responses :: "responses \<Rightarrow> qa_pair list \<Rightarrow> error + responses" where
  "group_responses dr [] = Inr dr"
| "group_responses dr (qa # qas) =
     (case dims_to_process (qa_dimension qa) of
        Inl e \<Rightarrow> Inl e
      | Inr dims \<Rightarrow> group_responses (foldl (file_under (item_of qa)) dr dims) qas)"

definition responses_for :: "responses \<Rightarrow> string \<Rightarrow> response_item list" where
  "responses_for dr dim = (case map_of dr dim of None \<Rightarrow> [] | Some ts \<Rightarrow> ts)"

definition dimensions_with_data :: "responses \<Rightarrow> string list" where
  "dimensions_with_data dr = map fst (filter (\<lambda>kv. snd kv \<noteq> []) dr)"

subsection \<open>The subjective scorer (lines 246 to 297)\<close>

definition fallback_record :: "string \<Rightarrow> json" where
  "fallback_record reason =
     JObj [(''analysis'', JStr (failure_prefix @ reason)),
           (''score'', JInt 2),
           (''key_traits'', JArr [])]"

text \<open>The \<^verbatim>\<open>except\<close> branch, applied to the two mappings as the \<^verbatim>\<open>try\<close> block left them.\<close>

definition fall_back :: "'t env \<Rightarrow> string \<Rightarrow> error \<Rightarrow> dict \<times> dict \<Rightarrow> dict \<times> dict" where
  "fall_back env dim e st =
     (AList.update dim (fallback_record (describe env e)) (fst st),
      AList.update dim (JInt 2) (snd st))"

text \<open>\<^verbatim>\<open>x.get\<close>: only a dict has the method.\<close>

definition has_get :: "json \<Rightarrow> error + unit" where
  "has_get x = (case x of JObj _ \<Rightarrow> Inr () | _ \<Rightarrow> Inl AttributeError)"

text \<open>
  One turn of the loop for dimension \<open>dim\<close>: the call, the record stored under the
  dimension, the score taken from it when it has one, and the progress message, which
  calls \<^verbatim>\<open>subj_result.get\<close>. Whatever raises inside is caught.
\<close>

definition score_dimension :: "'t env \<Rightarrow> responses \<Rightarrow> dict \<times> dict \<Rightarrow> string \<Rightarrow> dict \<times> dict" where
  "score_dimension env dr st dim =
     (let items = responses_for dr dim;
          subjective_analysis = fst st;
          subjective_scores = snd st
      in case call_ai_model (complete_text env) (Subjective_prompt dim items) of
           Inl e \<Rightarrow> fall_back env dim e st
         | Inr subj_result \<Rightarrow>
             (let analysis' = AList.update dim subj_result subjective_analysis in
              case py_contains ''score'' subj_result of
                Inl e \<Rightarrow> fall_back env dim e (analysis', subjective_scores)
              | Inr False \<Rightarrow>
                  (case has_get subj_result of
                     Inl e \<Rightarrow> fall_back env dim e (analysis', subjective_scores)
                   | Inr _ \<Rightarrow> (analysis', subjective_scores))
              | Inr True \<Rightarrow>
                  (case py_getitem subj_result ''score'' of
                     Inl e \<Rightarrow> fall_back env dim e (analysis', subjective_scores)
                   | Inr v \<Rightarrow>
                       (let scores' = AList.update dim v subjective_scores in
                        case has_get subj_result of
                          Inl e \<Rightarrow> fall_back env dim e (analysis', scores')
                        | Inr _ \<Rightarrow> (analysis', scores')))))"

text \<open>Lines 202 to 297: nothing is done without subjective pairs; grouping can raise.\<close>

definition score_subjective :: "'t env \<Rightarrow> qa_pair list \<Rightarrow> error + dict \<times> dict" where
  "score_subjective env subjective_qa_pairs =
     (if subjective_qa_pairs = [] then Inr ([], zero_scores)
      else (case group_responses no_responses subjective_qa_pairs of
              Inl e \<Rightarrow> Inl e
            | Inr dr \<Rightarrow> Inr (foldl (score_dimension env dr) ([], zero_scores) (dimensions_with_data dr))))"

subsection \<open>The score reconciler (lines 300 to 302 and 395 to 406)\<close>

fun add_scores :: "dict \<Rightarrow> dict \<Rightarrow> dict \<Rightarrow> string list \<Rightarrow> error + dict" where
  "add_scores objective subjective totals [] = Inr totals"
| "add_scores objective subjective totals (dim # dims) =
     (case map_of objective dim of
        None \<Rightarrow> Inl KeyError
      | Some a \<Rightarrow>
          (case map_of subjective dim of
             None \<Rightarrow> Inl KeyError
           | Some b \<Rightarrow>
               (case py_add a b of
                  Inl e \<Rightarrow> Inl e
                | Inr v \<Rightarrow> add_scores objective subjective (AList.update dim v totals) dims)))"

text \<open>The loop over \<^verbatim>\<open>dimensions.items()\<close>: the entry of a key of the totals gets the total
  as its \<^verbatim>\<open>score\<close>; the other entries are left alone.\<close>

fun reconcile :: "dict \<Rightarrow> dict \<Rightarrow> error + dict" where
  "reconcile total_scores [] = Inr []"
| "reconcile total_scores ((dim_code, dim_detail) # rest) =
     (case (case map_of total_scores dim_code of
              None \<Rightarrow> Inr dim_detail
            | Some t \<Rightarrow> py_setitem dim_detail ''score'' t) of
        Inl e \<Rightarrow> Inl e
      | Inr detail' \<Rightarrow>
          (case reconcile total_scores rest of
             Inl e \<Rightarrow> Inl e
           | Inr rest' \<Rightarrow> Inr ((dim_code, detail') # rest')))"

text \<open>The state of a request when the report is asked for.\<close>

record prepared =
  objective_qa_pairs :: "qa_pair list"
  objective_scores :: dict
  subjective_analysis :: dict
  subjective_scores :: dict
  total_scores :: dict

definition attach :: "prepared \<Rightarrow> json \<Rightarrow> error + json" where
  "attach p analysis_result =
     and_then (py_setitem analysis_result ''objective_scores'' (JObj (objective_scores p))) (\<lambda>r1.
     and_then (py_setitem r1 ''subjective_scores'' (JObj (subjective_scores p))) (\<lambda>r2.
     and_then (py_setitem r2 ''dimension_scores'' (JObj (total_scores p))) (\<lambda>r3.
     and_then (py_contains ''dimensions'' r3) (\<lambda>has.
     and_then
       (if has then
          and_then (py_getitem r3 ''dimensions'') (\<lambda>dims.
          and_then (py_items dims) (\<lambda>items.
          and_then (reconcile (total_scores p) items) (\<lambda>items'.
            py_setitem r3 ''dimensions'' (JObj items'))))
        else Inr r3) (\<lambda>r4.
     py_setitem r4 ''subjective_analysis'' (JObj (subjective_analysis p)))))))"

subsection \<open>The messages printed after the result is stored (lines 418 to 437)\<close>

text \<open>
  The loop prints the first 50 characters of a truthy \<^verbatim>\<open>analysis\<close>, which needs a value
  that can be sliced, and joins the first three \<^verbatim>\<open>key_traits\<close> of a non-empty list,
  which needs strings.
\<close>

definition is_string :: "json \<Rightarrow> bool" where
  "is_string x = (case x of JStr _ \<Rightarrow> True | _ \<Rightarrow> False)"

definition print_field :: "string \<Rightarrow> json \<Rightarrow> error + unit" where
  "print_field k v =
     (if k = ''analysis'' then
        (if truthy v then (case v of JStr _ \<Rightarrow> Inr () | JArr _ \<Rightarrow> Inr () | _ \<Rightarrow> Inl TypeError)
         else Inr ())
      else (case v of
              JArr xs \<Rightarrow>
                if k = ''key_traits'' \<and> xs \<noteq> [] \<and> \<not> list_all is_string (take 3 xs)
                then Inl TypeError else Inr ()
            | _ \<Rightarrow> Inr ()))"

fun print_fields :: "dict \<Rightarrow> error + unit" where
  "print_fields [] = Inr ()"
| "print_fields ((k, v) # rest) =
     (case print_field k v of Inl e \<Rightarrow> Inl e | Inr _ \<Rightarrow> print_fields rest)"

fun print_analysis :: "dict \<Rightarrow> error + unit" where
  "print_analysis [] = Inr ()"
| "print_analysis ((dim, info) # rest) =
     (case (case info of JObj d \<Rightarrow> print_fields d | _ \<Rightarrow> Inr ()) of
        Inl e \<Rightarrow> Inl e
      | Inr _ \<Rightarrow> print_analysis rest)"

subsection \<open>The handler\<close>

text \<open>Lines 118 to 302: everything before the report prompt is built.\<close>

definition prepare :: "'t env \<Rightarrow> request \<Rightarrow> error + prepared" where
  "prepare env req =
     and_then (format_questions 0 (questions req)) (\<lambda>formatted_questions.
       let (objective, subjective) = pair_up (answers req) formatted_questions;
           objective' = map resolve_choice objective
       in and_then (score_objective zero_scores objective') (\<lambda>obj_scores.
          and_then (score_subjective env subjective) (\<lambda>(analysis, subj_scores).
          and_then (add_scores obj_scores subj_scores [] DIMS) (\<lambda>totals.
            Inr \<lparr>objective_qa_pairs = objective', objective_scores = obj_scores,
                 subjective_analysis = analysis, subjective_scores = subj_scores,
                 total_scores = totals\<rparr>))))"

definition report_prompt :: "request \<Rightarrow> prepared \<Rightarrow> prompt" where
  "report_prompt req p =
     Report_prompt (user_info req) (objective_qa_pairs p) (subjective_analysis p)
       (objective_scores p) (subjective_scores p) (total_scores p)"

definition failed :: "'t env \<Rightarrow> error \<Rightarrow> envelope" where
  "failed env e = \<lparr>resp_code = 500, resp_message = failure_prefix @ describe env e, resp_data = None\<rparr>"

definition succeeded :: "json \<Rightarrow> envelope" where
  "succeeded r = \<lparr>resp_code = 200, resp_message = success_message, resp_data = Some r\<rparr>"

definition log_entry_of :: "'t env \<Rightarrow> request \<Rightarrow> json \<Rightarrow> 't log_entry" where
  "log_entry_of env req r =
     \<lparr>entry_username = dict_get (user_info req) ''username'' (JStr ''unknown''),
      entry_result = r, entry_timestamp = now env\<rparr>"

text \<open>
  \<^verbatim>\<open>analyze_data\<close>: the request and the results log \<^verbatim>\<open>analysis_results\<close> in, the envelope
  and the log out. The \<^verbatim>\<open>try\<close> block spans the whole body, so an exception at any point
  ends in the \<^verbatim>\<open>except\<close> branch with the log as it is at that point.
\<close>

definition analyze_data ::
  "'t env \<Rightarrow> request \<Rightarrow> 't log_entry list \<Rightarrow> envelope \<times> 't log_entry list" where
  "analyze_data env req analysis_results =
     (case prepare env req of
        Inl e \<Rightarrow> (failed env e, analysis_results)
      | Inr p \<Rightarrow>
          (case call_ai_model (complete_text env) (report_prompt req p) of
             Inl e \<Rightarrow> (failed env e, analysis_results)
           | Inr analysis_result \<Rightarrow>
               (case attach p analysis_result of
                  Inl e \<Rightarrow> (failed env e, analysis_results)
                | Inr r \<Rightarrow>
                    (let analysis_results' = analysis_results @ [log_entry_of env req r] in
                     case print_analysis (subjective_analysis p) of
                       Inl e \<Rightarrow> (failed env e, analysis_results')
                     | Inr _ \<Rightarrow> (succeeded r, analysis_results')))))"

text \<open>Requests served one after the other, each in its own environment.\<close>

fun serve ::
  "'t log_entry list \<Rightarrow> ('t env \<times> request) list \<Rightarrow> envelope list \<times> 't log_entry list" where
  "serve analysis_results [] = ([], analysis_results)"
| "serve analysis_results ((env, req) # rest) =
     (let (out, analysis_results') = analyze_data env req analysis_results;
          (outs, final) = serve analysis_results' rest
      in (out # outs, final))"

section \<open>Notions of the specification\<close>

text \<open>
  What an objective pair contributes to its dimension: the score of the resolved choice,
  and nothing when no option was resolved.
\<close>

definition points :: "qa_pair \<Rightarrow> int" where
  "points qa = (case qa_user_choice qa of
      None \<Rightarrow> 0
    | Some uc \<Rightarrow> (case num_of (choice_score uc) of Some i \<Rightarrow> i | None \<Rightarrow> 0))"

text \<open>The request of the objective-scoring example of the specification: one
  single-choice question of dimension R with the options 1 (score 2) and 2 (score 4),
  answered with 2. The question has no id, so it is question \<^verbatim>\<open>"1"\<close>.\<close>

definition example_request :: request where
  "example_request =
     \<lparr>user_info = [],
      questions =
        [[(''type'', JStr ''single_choice''), (''dimension'', JStr ''R''),
          (''options'', JArr [JObj [(''key'', JStr ''1''), (''score'', JInt 2)],
                              JObj [(''key'', JStr ''2''), (''score'', JInt 4)]])]],
      answers = [(''1'', JStr ''2'')]\<rparr>"


text \<open>
  What the specification says one subjective call leaves behind for its dimension, as the
  pair (analysis record, score written): on success the extracted record and its
  \<^verbatim>\<open>score\<close> field when it has one; on failure the fallback record and the score 2. A
  value that is extracted but is no record fails in the statements that follow the call.
\<close>

definition misuse :: "json \<Rightarrow> error" where
  "misuse x = (case py_contains ''score'' x of
      Inl e \<Rightarrow> e
    | Inr True \<Rightarrow> TypeError
    | Inr False \<Rightarrow> AttributeError)"

definition verdict :: "(error \<Rightarrow> string) \<Rightarrow> error + json \<Rightarrow> json \<times> json option" where
  "verdict descr res = (case res of
      Inl e \<Rightarrow> (fallback_record (descr e), Some (JInt 2))
    | Inr x \<Rightarrow> (case x of
        JObj r \<Rightarrow> (x, map_of r ''score'')
      | _ \<Rightarrow> (fallback_record (descr (misuse x)), Some (JInt 2))))"

definition write_score :: "string \<Rightarrow> json option \<Rightarrow> dict \<Rightarrow> dict" where
  "write_score dim s scores = (case s of None \<Rightarrow> scores | Some v \<Rightarrow> AList.update dim v scores)"

definition subjective_entry :: "'t env \<Rightarrow> responses \<Rightarrow> string \<Rightarrow> json \<times> json option" where
  "subjective_entry env dr d =
     verdict (describe env)
       (call_ai_model (complete_text env) (Subjective_prompt d (responses_for dr d)))"





definition score_in_range :: "json \<Rightarrow> bool" where
  "score_in_range v = (case v of JInt i \<Rightarrow> 0 \<le> i \<and> i \<le> 4 | _ \<Rightarrow> False)"

section \<open>Properties of the extractor\<close>

subsection \<open>The comma repair\<close>









subsection \<open>The repair is not confined to the structure\<close>

text \<open>
  C10. The two substitutions run over the whole candidate text, string literals included.
  The text \<^verbatim>\<open>{"a": ",}"}\<close> is valid as it stands and parses to an object whose value is
  the two characters \<^verbatim>\<open>,}\<close>; the extractor returns an object whose value is the single
  character \<^verbatim>\<open>}\<close>. So the extractor and the parser disagree on a valid payload.
\<close>

theorem repair_changes_valid_payload:
  \<open>json_loads ''{"a": ",}"}'' = Inr (JObj [(''a'', JStr '',}'')])
   \<and> extract_json ''{"a": ",}"}'' = Inr (JObj [(''a'', JStr ''}'')])
   \<and> extract_json ''{"a": ",}"}'' \<noteq> json_loads ''{"a": ",}"}''\<close>
proof -
  have a: \<open>json_loads ''{"a": ",}"}'' = Inr (JObj [(''a'', JStr '',}'')])\<close>
    by code_simp
  have b: \<open>extract_json ''{"a": ",}"}'' = Inr (JObj [(''a'', JStr ''}'')])\<close>
    by code_simp
  from a b show ?thesis by simp
qed

section \<open>Properties of the request handler\<close>

subsection \<open>What a successful request went through\<close>

lemma and_then_Inr: "and_then m f = Inr y \<longleftrightarrow> (\<exists>x. m = Inr x \<and> f x = Inr y)"
  by (cases m) (auto simp: and_then_def)

lemma analyze_data_success:
  assumes "analyze_data env req log = (out, log')" "resp_code out = 200"
  shows "\<exists>p ar r. prepare env req = Inr p
      \<and> call_ai_model (complete_text env) (report_prompt req p) = Inr ar
      \<and> attach p ar = Inr r
      \<and> print_analysis (subjective_analysis p) = Inr ()
      \<and> out = succeeded r \<and> log' = log @ [log_entry_of env req r]"
  using assms
  by (auto simp: analyze_data_def failed_def succeeded_def Let_def split: sum.splits)

lemma prepare_fields:
  assumes "prepare env req = Inr p"
  shows "\<exists>formatted. format_questions 0 (questions req) = Inr formatted
      \<and> objective_qa_pairs p = map resolve_choice (fst (pair_up (answers req) formatted))
      \<and> score_objective zero_scores (objective_qa_pairs p) = Inr (objective_scores p)
      \<and> score_subjective env (snd (pair_up (answers req) formatted))
           = Inr (subjective_analysis p, subjective_scores p)
      \<and> add_scores (objective_scores p) (subjective_scores p) [] DIMS = Inr (total_scores p)"
  using assms
  by (auto simp: prepare_def and_then_Inr Let_def case_prod_beta)

lemma py_setitem_Inr: "py_setitem x k v = Inr y \<longleftrightarrow> (\<exists>d. x = JObj d \<and> y = JObj (AList.update k v d))"
  by (cases x) (auto simp: py_setitem_def)

lemma attach_fields:
  assumes "attach p ar = Inr r"
  shows "\<exists>d. r = JObj d
      \<and> map_of d ''objective_scores'' = Some (JObj (objective_scores p))
      \<and> map_of d ''subjective_scores'' = Some (JObj (subjective_scores p))
      \<and> map_of d ''dimension_scores'' = Some (JObj (total_scores p))
      \<and> map_of d ''subjective_analysis'' = Some (JObj (subjective_analysis p))
      \<and> (map_of d ''dimensions'' = None
          \<or> (\<exists>items0 items. map_of d ''dimensions'' = Some (JObj items)
                \<and> reconcile (total_scores p) items0 = Inr items))"
  using assms
  by (auto simp: attach_def and_then_Inr py_setitem_Inr update_conv' py_contains_def py_getitem_def
        py_items_def split: if_splits option.splits json.splits)


subsection \<open>The objective scorer\<close>

lemma dimension_key_Some: "dimension_key x = Inr (Some s) \<longleftrightarrow> x = JStr s \<and> s \<in> set DIMS"
  by (cases x) (auto simp: dimension_key_def hashable_def)

lemma py_add_JInt: "py_add (JInt n) y = Inr v \<Longrightarrow> \<exists>i. num_of y = Some i \<and> v = JInt (n + i)"
  by (cases y) (auto simp: py_add_def num_of_def split: if_splits)

lemma map_of_update_keys:
  "map_of al k = Some c \<Longrightarrow> map fst (AList.update k v al) = map fst al"
  by (induction al) (auto split: if_splits)

lemma score_objective_keys:
  "score_objective sc pairs = Inr sc' \<Longrightarrow> map fst sc' = map fst sc"
  by (induction pairs arbitrary: sc)
     (auto split: sum.splits option.splits simp: map_of_update_keys)

lemma score_objective_sum:
  assumes "score_objective sc pairs = Inr sc'" "map_of sc d = Some (JInt n)" "d \<in> set DIMS"
  shows "map_of sc' d =
     Some (JInt (n + sum_list (map points (filter (\<lambda>qa. qa_dimension qa = JStr d) pairs))))"
  using assms
proof (induction sc pairs arbitrary: n rule: score_objective.induct)
  case (1 scores)
  then show ?case by simp
next
  case (2 scores qa qas)
  show ?case
  proof (cases "dimension_key (qa_dimension qa)")
    case (Inl e)
    with "2.prems" show ?thesis by simp
  next
    case (Inr k)
    show ?thesis
    proof (cases k)
      case None
      with Inr have "qa_dimension qa \<noteq> JStr d"
        using "2.prems"(3) by (auto simp: dimension_key_def hashable_def split: if_splits json.splits)
      with "2.IH"(1)[OF Inr None _ "2.prems"(2,3)] "2.prems"(1) Inr None show ?thesis
        by simp
    next
      case (Some dim)
      then have dim: "qa_dimension qa = JStr dim" "dim \<in> set DIMS"
        using Inr by (simp_all add: dimension_key_Some)
      show ?thesis
      proof (cases "qa_user_choice qa")
        case None
        then have "points qa = 0" by (simp add: points_def)
        with "2.IH"(2)[OF Inr Some None _ "2.prems"(2,3)] "2.prems"(1) Inr Some None show ?thesis
          by simp
      next
        case uc: (Some uc)
        from "2.prems"(1) Inr Some uc obtain cur v where
          cur: "map_of scores dim = Some cur" and v: "py_add cur (choice_score uc) = Inr v"
          and rest: "score_objective (AList.update dim v scores) qas = Inr sc'"
          by (auto split: option.splits sum.splits)
        show ?thesis
        proof (cases "dim = d")
          case True
          with cur "2.prems"(2) have "cur = JInt n" by simp
          with v obtain i where i: "num_of (choice_score uc) = Some i" "v = JInt (n + i)"
            using py_add_JInt by blast
          have "map_of (AList.update dim v scores) d = Some (JInt (n + i))"
            using True i by (simp add: update_conv')
          from "2.IH"(3)[OF Inr Some uc cur v rest this "2.prems"(3)] dim True uc i
          show ?thesis by (simp add: points_def)
        next
          case False
          then have "map_of (AList.update dim v scores) d = Some (JInt n)"
            using "2.prems"(2) by (simp add: update_conv')
          from "2.IH"(3)[OF Inr Some uc cur v rest this "2.prems"(3)] dim False
          show ?thesis by simp
        qed
      qed
    qed
  qed
qed

lemma zero_scores_at: "d \<in> set DIMS \<Longrightarrow> map_of zero_scores d = Some (JInt 0)"
  by (auto simp: zero_scores_def DIMS_def)

lemma resolve_choice_found:
  assumes "find (\<lambda>opt. py_eq (choice_key opt) (qa_answer qa)) (options_of qa) = Some opt"
  shows "qa_user_choice (resolve_choice qa) =
     Some \<lparr>choice_key = qa_answer qa, choice_content = choice_content opt, choice_score = choice_score opt\<rparr>"
  using assms by (simp add: resolve_choice_def)

lemma str_nat_1: "str_nat (Suc 0) = ''1''"
proof -
  have "str_nat 1 = ''1''"
    by code_simp
  then show ?thesis
    by (simp only: One_nat_def)
qed

lemma example_request_prepared:
  "\<exists>p. prepare env example_request = Inr p
     \<and> map_of (objective_scores p) ''R'' = Some (JInt 4)
     \<and> map qa_user_choice (objective_qa_pairs p)
         = [Some \<lparr>choice_key = JStr ''2'', choice_content = JStr '''', choice_score = JInt 4\<rparr>]"
  by (simp add: prepare_def example_request_def and_then_def format_question_def dict_get_def
      py_iter_def format_option_def is_subjective_def make_pair_def py_str_def resolve_choice_def
      options_of_def zero_scores_def DIMS_def dimension_key_def hashable_def py_add_def num_of_def
      score_subjective_def str_nat_1)

text \<open>
  C6. Resolving an objective pair records the first option whose key equals the submitted
  answer, as the answer with that option's content and score; a pair without such an
  option stays without a choice and contributes nothing. When the scorer returns, the
  score of each dimension is the sum of the scores of the resolved choices of the pairs of
  that dimension. For the request of the specification's example the score of R is 4 and
  the recorded choice has key 2 and score 4.
\<close>

theorem objective_scoring:
  "score_objective zero_scores (map resolve_choice pairs) = Inr scores \<Longrightarrow> d \<in> set DIMS \<Longrightarrow>
     map_of scores d
       = Some (JInt (sum_list (map points
            (filter (\<lambda>qa. qa_dimension qa = JStr d) (map resolve_choice pairs)))))
     \<and> (\<forall>qa opt. find (\<lambda>opt. py_eq (choice_key opt) (qa_answer qa)) (options_of qa) = Some opt \<longrightarrow>
           py_eq (choice_key opt) (qa_answer qa)
           \<and> qa_user_choice (resolve_choice qa)
               = Some \<lparr>choice_key = qa_answer qa, choice_content = choice_content opt,
                       choice_score = choice_score opt\<rparr>)
     \<and> (\<forall>qa. find (\<lambda>opt. py_eq (choice_key opt) (qa_answer qa)) (options_of qa) = None \<longrightarrow>
           qa_user_choice qa = None \<longrightarrow> points (resolve_choice qa) = 0)
     \<and> (\<exists>p. prepare env example_request = Inr p
           \<and> map_of (objective_scores p) ''R'' = Some (JInt 4)
           \<and> map qa_user_choice (objective_qa_pairs p)
               = [Some \<lparr>choice_key = JStr ''2'', choice_content = JStr '''',
                        choice_score = JInt 4\<rparr>])"
proof -
  assume run: "score_objective zero_scores (map resolve_choice pairs) = Inr scores"
    and d: "d \<in> set DIMS"
  have sum: "map_of scores d
       = Some (JInt (sum_list (map points
            (filter (\<lambda>qa. qa_dimension qa = JStr d) (map resolve_choice pairs)))))"
    using score_objective_sum[OF run zero_scores_at[OF d] d] by simp
  have found: "py_eq (choice_key opt) (qa_answer qa)
           \<and> qa_user_choice (resolve_choice qa)
               = Some \<lparr>choice_key = qa_answer qa, choice_content = choice_content opt,
                       choice_score = choice_score opt\<rparr>"
    if "find (\<lambda>opt. py_eq (choice_key opt) (qa_answer qa)) (options_of qa) = Some opt"
    for qa opt
    using that resolve_choice_found[OF that] by (auto simp: find_Some_iff)
  have missed: "points (resolve_choice qa) = 0"
    if "find (\<lambda>opt. py_eq (choice_key opt) (qa_answer qa)) (options_of qa) = None"
      "qa_user_choice qa = None" for qa
    using that by (simp add: resolve_choice_def points_def)
  from sum found missed example_request_prepared[of env] show ?thesis
    by blast
qed

theorem objective_scoring_witness:
  "score_objective zero_scores (map resolve_choice
      [\<lparr>qa_question = JStr '''', qa_dimension = JStr ''R'', qa_answer = JStr ''2'',
        qa_type = JStr ''single_choice'', qa_standard = JStr '''',
        qa_options = Some [\<lparr>choice_key = JStr ''1'', choice_content = JStr '''', choice_score = JInt 2\<rparr>,
                           \<lparr>choice_key = JStr ''2'', choice_content = JStr '''', choice_score = JInt 4\<rparr>],
        qa_user_choice = None\<rparr>])
     = Inr [(''R'', JInt 4), (''E'', JInt 0), (''A'', JInt 0), (''D'', JInt 0), (''Y'', JInt 0)]
   \<and> ''R'' \<in> set DIMS
   \<and> map_of [(''R'', JInt 4), (''E'', JInt 0), (''A'', JInt 0), (''D'', JInt 0), (''Y'', JInt 0)] ''R''
       = Some (JInt 4)"
proof -
  let ?pairs = "[\<lparr>qa_question = JStr '''', qa_dimension = JStr ''R'', qa_answer = JStr ''2'',
        qa_type = JStr ''single_choice'', qa_standard = JStr '''',
        qa_options = Some [\<lparr>choice_key = JStr ''1'', choice_content = JStr '''', choice_score = JInt 2\<rparr>,
                           \<lparr>choice_key = JStr ''2'', choice_content = JStr '''', choice_score = JInt 4\<rparr>],
        qa_user_choice = None\<rparr>]"
  let ?scores = "[(''R'', JInt 4), (''E'', JInt 0), (''A'', JInt 0), (''D'', JInt 0), (''Y'', JInt 0)]"
  have run: "score_objective zero_scores (map resolve_choice ?pairs) = Inr ?scores"
    by (simp add: resolve_choice_def options_of_def zero_scores_def DIMS_def dimension_key_def
        hashable_def py_add_def num_of_def)
  have d: "''R'' \<in> set DIMS"
    by (simp add: DIMS_def)
  from objective_scoring[OF run d] run d show ?thesis
    by (simp add: points_def resolve_choice_def options_of_def num_of_def)
qed

subsection \<open>The subjective scorer\<close>

lemma score_dimension_verdict:
  "score_dimension env dr st dim =
     (let res = verdict (describe env)
                  (call_ai_model (complete_text env) (Subjective_prompt dim (responses_for dr dim)))
      in (AList.update dim (fst res) (fst st), write_score dim (snd res) (snd st)))"
proof (cases "call_ai_model (complete_text env) (Subjective_prompt dim (responses_for dr dim))")
  case (Inl e)
  then show ?thesis
    by (simp add: score_dimension_def verdict_def fall_back_def write_score_def)
next
  case (Inr x)
  then show ?thesis
    by (cases x)
       (auto simp: score_dimension_def verdict_def fall_back_def write_score_def misuse_def
          py_contains_def py_getitem_def has_get_def Let_def split: option.splits bool.splits)
qed

lemma score_dimension_entry:
  "score_dimension env dr st dim =
     (AList.update dim (fst (subjective_entry env dr dim)) (fst st),
      write_score dim (snd (subjective_entry env dr dim)) (snd st))"
  by (simp add: score_dimension_verdict subjective_entry_def Let_def)



lemma write_score_keys:
  "dim \<in> set (map fst scores) \<Longrightarrow> map fst (write_score dim s scores) = map fst scores"
  by (cases s) (auto simp: write_score_def update_keys)

lemma loop_scores_keys:
  "set dims \<subseteq> set (map fst (snd st)) \<Longrightarrow>
     map fst (snd (foldl (score_dimension env dr) st dims)) = map fst (snd st)"
proof (induction dims arbitrary: st)
  case Nil
  then show ?case by simp
next
  case (Cons x xs)
  have "map fst (snd (score_dimension env dr st x)) = map fst (snd st)"
    using Cons.prems by (simp add: score_dimension_entry write_score_keys)
  with Cons.IH[of "score_dimension env dr st x"] Cons.prems show ?case
    by simp
qed

lemma map_entry_keys: "map fst (AList.map_entry k f al) = map fst al"
  by (induction al) auto

lemma file_under_keys: "map fst (foldl (file_under item) dr dims) = map fst dr"
  by (induction dims arbitrary: dr) (auto simp: file_under_def map_entry_keys)

lemma group_responses_keys: "group_responses dr qas = Inr dr' \<Longrightarrow> map fst dr' = map fst dr"
  by (induction qas arbitrary: dr) (auto split: sum.splits simp: file_under_keys)

lemma dimensions_with_data_subset: "set (dimensions_with_data dr) \<subseteq> set (map fst dr)"
  by (auto simp: dimensions_with_data_def)

lemma score_subjective_keys:
  assumes "score_subjective env pairs = Inr (analysis, scores)"
  shows "map fst scores = DIMS"
proof (cases "pairs = []")
  case True
  with assms show ?thesis by (auto simp: score_subjective_def zero_scores_def comp_def)
next
  case False
  with assms obtain dr where dr: "group_responses no_responses pairs = Inr dr"
    and r: "foldl (score_dimension env dr) ([], zero_scores) (dimensions_with_data dr) = (analysis, scores)"
    by (auto simp: score_subjective_def split: sum.splits)
  have "map fst dr = DIMS"
    using group_responses_keys[OF dr] by (simp add: no_responses_def comp_def)
  then have "set (dimensions_with_data dr) \<subseteq> set (map fst (snd ([]::dict, zero_scores)))"
    using dimensions_with_data_subset[of dr] by (simp add: zero_scores_def comp_def)
  from loop_scores_keys[OF this, of env dr] r show ?thesis
    by (simp add: zero_scores_def comp_def)
qed




end
